theory Spec2Isabelle
  imports Main
begin

section \<open>The calculator of src/src/App.tsx\<close>

text \<open>
  The program is one React component. Its four state fields (\<open>current\<close>, \<open>previous\<close>,
  \<open>operator\<close>, \<open>overwrite\<close>) are read through \<open>useState\<close> and written through the
  setters \<open>setCurrent\<close>, \<open>setPrevious\<close>, \<open>setOperator\<close>, \<open>setOverwrite\<close>.
  The pure helpers (\<open>sanitizeNumber\<close>, \<open>trimTrailingZeros\<close>, \<open>formatResult\<close>,
  \<open>compute\<close>) work on strings and on JavaScript numbers.

  The theory has three parts: the JavaScript built-ins the helpers call (numbers,
  \<open>parseFloat\<close>, \<open>toFixed\<close>, \<open>toString\<close>, the three regular-expression replacements),
  the functions of the source in the order of the source, and the theorems.
\<close>

subsection \<open>JavaScript numbers\<close>

text \<open>
  A JavaScript number is an IEEE 754 binary64 value. \<open>Finite s p q\<close> is the value
  \<open>p / q\<close> with sign \<open>s\<close> (\<open>True\<close> is negative), for integers \<open>0 \<le> p\<close> and \<open>0 < q\<close>;
  the two zeros are \<open>Finite False 0 1\<close> and \<open>Finite True 0 1\<close>. Every operation
  computes the exact rational result and rounds it once, to the nearest binary64 value,
  ties to even: that is \<open>round_double\<close>.
\<close>

datatype number = NaN | Infinity bool | Finite bool int int

definition pow2 :: "int \<Rightarrow> int" where
  "pow2 e = 2 ^ nat e"

definition pow10 :: "int \<Rightarrow> int" where
  "pow10 e = 10 ^ nat e"

text \<open>The number of binary digits of a positive integer.\<close>

fun bit_length :: "int \<Rightarrow> int" where
  "bit_length n = (if n \<le> 0 then 0 else 1 + bit_length (n div 2))"

declare bit_length.simps [simp del]

text \<open>\<open>ge_pow2 p q e\<close> is \<open>2 ^ e \<le> p / q\<close>, for any integer \<open>e\<close>.\<close>

definition ge_pow2 :: "int \<Rightarrow> int \<Rightarrow> int \<Rightarrow> bool" where
  "ge_pow2 p q e = (if 0 \<le> e then q * pow2 e \<le> p else q \<le> p * pow2 (- e))"

text \<open>The integer \<open>e\<close> with \<open>2 ^ e \<le> p / q < 2 ^ (e + 1)\<close>, for \<open>0 < p\<close> and \<open>0 < q\<close>.\<close>

definition binary_exponent :: "int \<Rightarrow> int \<Rightarrow> int" where
  "binary_exponent p q =
     (let e0 = bit_length p - bit_length q
      in if ge_pow2 p q e0 then e0 else e0 - 1)"

text \<open>The integer nearest to \<open>n / d\<close>, the even one of the two when \<open>n / d\<close> is half-way.\<close>

definition round_half_even :: "int \<Rightarrow> int \<Rightarrow> int" where
  "round_half_even n d =
     (let f = n div d; r = n mod d
      in if 2 * r < d then f
         else if d < 2 * r then f + 1
         else if even f then f else f + 1)"

definition make_finite :: "bool \<Rightarrow> int \<Rightarrow> int \<Rightarrow> number" where
  "make_finite neg n d = (let g = gcd n d in Finite neg (n div g) (d div g))"

text \<open>
  Rounding the exact magnitude \<open>p / q\<close> to binary64: the unit in the last place is
  \<open>2 ^ u\<close>, 52 binary places below the leading bit and never below \<open>2 ^ - 1074\<close>
  (the subnormal range); the significand is rounded to an integer number of units; a
  result of \<open>2 ^ 1024\<close> or more is infinite.
\<close>

definition round_double :: "bool \<Rightarrow> int \<Rightarrow> int \<Rightarrow> number" where
  "round_double neg p q =
     (if p = 0 then Finite neg 0 1
      else
        let u = max (binary_exponent p q - 52) (- 1074);
            m = (if 0 \<le> u then round_half_even p (q * pow2 u)
                 else round_half_even (p * pow2 (- u)) q)
        in if 0 \<le> u then
             (if pow2 1024 \<le> m * pow2 u then Infinity neg
              else make_finite neg (m * pow2 u) 1)
           else make_finite neg m (pow2 (- u)))"

definition signed :: "bool \<Rightarrow> int \<Rightarrow> int" where
  "signed s p = (if s then - p else p)"

definition number_negate :: "number \<Rightarrow> number" where
  "number_negate x =
     (case x of NaN \<Rightarrow> NaN | Infinity s \<Rightarrow> Infinity (\<not> s) | Finite s p q \<Rightarrow> Finite (\<not> s) p q)"

text \<open>\<open>a + b\<close>. An exact sum of zero is \<open>+0\<close>, unless both operands are \<open>-0\<close>.\<close>

fun number_add :: "number \<Rightarrow> number \<Rightarrow> number" where
  "number_add NaN y = NaN"
| "number_add x NaN = NaN"
| "number_add (Infinity s) (Infinity t) = (if s = t then Infinity s else NaN)"
| "number_add (Infinity s) (Finite t p q) = Infinity s"
| "number_add (Finite s p q) (Infinity t) = Infinity t"
| "number_add (Finite s p q) (Finite t p' q') =
     (let n = signed s p * q' + signed t p' * q
      in if n = 0 then Finite (s \<and> t) 0 1 else round_double (n < 0) \<bar>n\<bar> (q * q'))"

text \<open>\<open>a - b\<close> is \<open>a + (- b)\<close>.\<close>

definition number_subtract :: "number \<Rightarrow> number \<Rightarrow> number" where
  "number_subtract x y = number_add x (number_negate y)"

text \<open>\<open>a * b\<close>. The sign is the exclusive or of the signs; infinity times zero is NaN.\<close>

fun number_multiply :: "number \<Rightarrow> number \<Rightarrow> number" where
  "number_multiply NaN y = NaN"
| "number_multiply x NaN = NaN"
| "number_multiply (Infinity s) (Infinity t) = Infinity (s \<noteq> t)"
| "number_multiply (Infinity s) (Finite t p q) = (if p = 0 then NaN else Infinity (s \<noteq> t))"
| "number_multiply (Finite s p q) (Infinity t) = (if p = 0 then NaN else Infinity (s \<noteq> t))"
| "number_multiply (Finite s p q) (Finite t p' q') = round_double (s \<noteq> t) (p * p') (q * q')"

text \<open>
  \<open>a / b\<close>. Zero by zero and infinity by infinity are NaN; any other division by zero
  is infinite: JavaScript division never throws.
\<close>

fun number_divide :: "number \<Rightarrow> number \<Rightarrow> number" where
  "number_divide NaN y = NaN"
| "number_divide x NaN = NaN"
| "number_divide (Infinity s) (Infinity t) = NaN"
| "number_divide (Infinity s) (Finite t p q) = Infinity (s \<noteq> t)"
| "number_divide (Finite s p q) (Infinity t) = Finite (s \<noteq> t) 0 1"
| "number_divide (Finite s p q) (Finite t p' q') =
     (if p' = 0 then (if p = 0 then NaN else Infinity (s \<noteq> t))
      else round_double (s \<noteq> t) (p * q') (q * p'))"

text \<open>\<open>Number.isFinite(x)\<close> and the comparison \<open>x === 0\<close>, which both zeros pass.\<close>

definition isFinite :: "number \<Rightarrow> bool" where
  "isFinite x = (case x of Finite s p q \<Rightarrow> True | _ \<Rightarrow> False)"

definition is_zero :: "number \<Rightarrow> bool" where
  "is_zero x = (case x of Finite s p q \<Rightarrow> p = 0 | _ \<Rightarrow> False)"

subsection \<open>Decimal digits\<close>

definition is_digit :: "char \<Rightarrow> bool" where
  "is_digit c = (c \<in> set ''0123456789'')"

definition digit_value :: "char \<Rightarrow> int" where
  "digit_value c = of_char c - 48"

definition digit_char :: "int \<Rightarrow> char" where
  "digit_char d = ''0123456789'' ! nat d"

definition digits_value :: "string \<Rightarrow> int" where
  "digits_value ds = foldl (\<lambda>acc c. 10 * acc + digit_value c) 0 ds"

text \<open>The decimal representation of a non-negative integer, \<open>''0''\<close> for zero.\<close>

function digits_of :: "int \<Rightarrow> string" where
  "digits_of n =
     (if n < 10 then [digit_char n] else digits_of (n div 10) @ [digit_char (n mod 10)])"
  by pat_completeness auto
termination
  by (relation "measure nat") auto

declare digits_of.simps [simp del]

definition strip_trailing_zeros :: "string \<Rightarrow> string" where
  "strip_trailing_zeros ds = rev (dropWhile (\<lambda>c. c = CHR ''0'') (rev ds))"

subsection \<open>parseFloat\<close>

text \<open>
  \<open>parseFloat(string)\<close> skips leading white space, reads the longest prefix that is a
  decimal literal (an optional sign, then \<open>Infinity\<close>, or digits with an optional point
  and an optional exponent part, with a digit before or after the point) and returns
  the number nearest to its value; it returns NaN when there is no such prefix. An
  \<open>e\<close> that no digit follows is not part of the literal. A character of a HOL string
  stands for the UTF-16 code unit of the same number; the white space and line
  terminators of JavaScript among the code units below 256 are tab, line feed, vertical
  tab, form feed, carriage return, space and the no-break space U+00A0.
\<close>

definition is_white :: "char \<Rightarrow> bool" where
  "is_white c =
     (c \<in> set [CHR 0x09, CHR 0x0A, CHR 0x0B, CHR 0x0C, CHR 0x0D, CHR '' '', CHR 0xA0])"

definition exponent_part :: "string \<Rightarrow> int" where
  "exponent_part r =
     (if r \<noteq> [] \<and> (hd r = CHR ''e'' \<or> hd r = CHR ''E'') then
        let r' = tl r;
            eneg = (r' \<noteq> [] \<and> hd r' = CHR ''-'');
            r'' = (if r' \<noteq> [] \<and> (hd r' = CHR ''-'' \<or> hd r' = CHR ''+'') then tl r' else r');
            ds = takeWhile is_digit r''
        in if ds = [] then 0 else signed eneg (digits_value ds)
      else 0)"

definition parseFloat :: "string \<Rightarrow> number" where
  "parseFloat inputString =
     (let trimmed = dropWhile is_white inputString;
          neg = (trimmed \<noteq> [] \<and> hd trimmed = CHR ''-'');
          unsigned = (if trimmed \<noteq> [] \<and> (hd trimmed = CHR ''-'' \<or> hd trimmed = CHR ''+'')
                      then tl trimmed else trimmed)
      in if take 8 unsigned = ''Infinity'' then Infinity neg
         else
           let ip = takeWhile is_digit unsigned;
               r1 = dropWhile is_digit unsigned;
               has_point = (r1 \<noteq> [] \<and> hd r1 = CHR ''.'');
               fp = (if has_point then takeWhile is_digit (tl r1) else []);
               r2 = (if has_point then dropWhile is_digit (tl r1) else r1)
           in if ip = [] \<and> fp = [] then NaN
              else
                let e10 = exponent_part r2 - int (length fp);
                    mant = digits_value (ip @ fp)
                in if 0 \<le> e10 then round_double neg (mant * pow10 e10) 1
                   else round_double neg mant (pow10 (- e10)))"

subsection \<open>Number.prototype.toString\<close>

text \<open>
  For a positive finite \<open>x\<close>, \<open>toString\<close> takes integers \<open>n\<close>, \<open>k\<close>, \<open>s\<close> with
  \<open>1 \<le> k\<close>, \<open>10 ^ (k - 1) \<le> s < 10 ^ k\<close>, such that \<open>s * 10 ^ (n - k)\<close> rounds to \<open>x\<close>
  and \<open>k\<close> is as small as possible; of several such \<open>s\<close> the one nearest to \<open>x\<close>.

  \<open>decimal_exponent p q\<close> is the \<open>n0\<close> with \<open>10 ^ (n0 - 1) \<le> p / q < 10 ^ n0\<close>.
  \<open>try_digits p q n0 k\<close> tries the two \<open>k\<close>-digit candidates around \<open>p / q\<close>, as a pair
  \<open>(c, t)\<close> of value \<open>c * 10 ^ t\<close>. Seventeen digits always identify a binary64 value;
  \<open>shortest_digits\<close> falls back to the seventeen-digit truncation for a \<open>p / q\<close> that
  is not one.
\<close>

function scale_up :: "int \<Rightarrow> int \<Rightarrow> int \<Rightarrow> int" where
  "scale_up p q j = (if p \<le> 0 \<or> q \<le> p * 10 then j else scale_up (p * 10) q (j + 1))"
  by pat_completeness auto
termination
  by (relation "measure (\<lambda>(p, q, j). nat (q - p))") auto

declare scale_up.simps [simp del]

definition decimal_exponent :: "int \<Rightarrow> int \<Rightarrow> int" where
  "decimal_exponent p q =
     (if q \<le> p then int (length (digits_of (p div q))) else 1 - scale_up p q 1)"

definition same_value :: "number \<Rightarrow> int \<Rightarrow> int \<Rightarrow> bool" where
  "same_value x p q = (case x of Finite s p' q' \<Rightarrow> p' * q = p * q' | _ \<Rightarrow> False)"

definition reads_back :: "int \<Rightarrow> int \<Rightarrow> int \<Rightarrow> int \<Rightarrow> bool" where
  "reads_back p q c t =
     (0 < c \<and> same_value (if 0 \<le> t then round_double False (c * pow10 t) 1
                           else round_double False c (pow10 (- t))) p q)"

definition try_digits :: "int \<Rightarrow> int \<Rightarrow> int \<Rightarrow> int \<Rightarrow> (int \<times> int) option" where
  "try_digits p q n0 k =
     (let t = n0 - k;
          N = (if 0 \<le> t then p else p * pow10 (- t));
          D = (if 0 \<le> t then q * pow10 t else q);
          lo = N div D; r = N mod D; hi = lo + 1
      in if reads_back p q lo t then
           (if reads_back p q hi t then
              (if 2 * r < D then Some (lo, t)
               else if D < 2 * r then Some (hi, t)
               else if even lo then Some (lo, t) else Some (hi, t))
            else Some (lo, t))
         else if reads_back p q hi t then Some (hi, t)
         else None)"

fun first_some :: "('a \<Rightarrow> 'b option) \<Rightarrow> 'a list \<Rightarrow> 'b option" where
  "first_some f [] = None"
| "first_some f (k # ks) = (case f k of Some r \<Rightarrow> Some r | None \<Rightarrow> first_some f ks)"

text \<open>
  The digits of \<open>s\<close> and the exponent \<open>n\<close>. The zeros that end the candidate are not
  digits of \<open>s\<close>; its leading digit always is.
\<close>

definition shortest_digits :: "int \<Rightarrow> int \<Rightarrow> string \<times> int" where
  "shortest_digits p q =
     (let n0 = decimal_exponent p q;
          (c, t) =
            (case first_some (try_digits p q n0)
                    [1, 2, 3, 4, 5, 6, 7, 8, 9, 10, 11, 12, 13, 14, 15, 16, 17] of
               Some r \<Rightarrow> r
             | None \<Rightarrow>
                 (if 0 \<le> n0 - 17 then p div (q * pow10 (n0 - 17))
                  else (p * pow10 (17 - n0)) div q, n0 - 17));
          ds = digits_of c
      in (hd ds # strip_trailing_zeros (tl ds), int (length ds) + t))"

definition positive_toString :: "int \<Rightarrow> int \<Rightarrow> string" where
  "positive_toString p q =
     (let (s, n) = shortest_digits p q; k = int (length s)
      in if k \<le> n \<and> n \<le> 21 then s @ replicate (nat (n - k)) (CHR ''0'')
         else if 0 < n \<and> n \<le> 21 then take (nat n) s @ ''.'' @ drop (nat n) s
         else if - 6 < n \<and> n \<le> 0 then ''0.'' @ replicate (nat (- n)) (CHR ''0'') @ s
         else
           let e = n - 1;
               es = (if e < 0 then ''-'' else ''+'') @ digits_of \<bar>e\<bar>
           in if k = 1 then s @ ''e'' @ es
              else take 1 s @ ''.'' @ drop 1 s @ ''e'' @ es)"

definition number_toString :: "number \<Rightarrow> string" where
  "number_toString x =
     (case x of
        NaN \<Rightarrow> ''NaN''
      | Infinity s \<Rightarrow> (if s then ''-Infinity'' else ''Infinity'')
      | Finite s p q \<Rightarrow>
          (if p = 0 then ''0''
           else (if s then ''-'' else '''') @ positive_toString p q))"

subsection \<open>Number.prototype.toFixed\<close>

text \<open>
  \<open>x.toFixed(f)\<close>: a number that is not finite is printed as \<open>toString\<close> prints it; a
  magnitude of \<open>10 ^ 21\<close> or more too; otherwise \<open>n\<close> is the integer for which
  \<open>n / 10 ^ f\<close> is nearest to the magnitude of \<open>x\<close> (the larger of two), printed with
  \<open>f\<close> digits after the point. The sign is printed for \<open>x < 0\<close>, so not for \<open>-0\<close>.
\<close>

definition toFixed :: "number \<Rightarrow> int \<Rightarrow> string" where
  "toFixed x f =
     (case x of
        NaN \<Rightarrow> ''NaN''
      | Infinity s \<Rightarrow> (if s then ''-Infinity'' else ''Infinity'')
      | Finite s p q \<Rightarrow>
          (let sgn = (if s \<and> p \<noteq> 0 then ''-'' else '''')
           in if pow10 21 * q \<le> p then sgn @ positive_toString p q
              else
                let n = (2 * p * pow10 f + q) div (2 * q);
                    m = digits_of n;
                    m' = (if int (length m) \<le> f
                          then replicate (nat (f + 1 - int (length m))) (CHR ''0'') @ m else m);
                    k = int (length m')
                in if f = 0 then sgn @ m'
                   else sgn @ take (nat (k - f)) m' @ ''.'' @ drop (nat (k - f)) m'))"

subsection \<open>The regular expressions of trimTrailingZeros\<close>

text \<open>
  \<open>value.replace(/\.0+$/, '')\<close>: the match is a point with nothing but zeros, at least
  one, from it to the end of the string; the search goes from left to right, and the
  match is removed.
\<close>

definition zeros_to_end :: "string \<Rightarrow> bool" where
  "zeros_to_end cs = (cs \<noteq> [] \<and> list_all (\<lambda>c. c = CHR ''0'') cs)"

fun replace_point_zeros :: "string \<Rightarrow> string" where
  "replace_point_zeros [] = []"
| "replace_point_zeros (c # cs) =
     (if c = CHR ''.'' \<and> zeros_to_end cs then [] else c # replace_point_zeros cs)"

text \<open>
  \<open>value.replace(/(\.\d*?[1-9])0+$/, '$1')\<close>: the match is a point followed by digits
  only, up to the end of the string, with a digit from 1 to 9 among them and at least
  one zero after the last such digit. The group \<open>$1\<close> is the point and the digits up
  to that last digit from 1 to 9: \<open>fraction_match\<close> returns these digits.
\<close>

definition fraction_match :: "string \<Rightarrow> string option" where
  "fraction_match cs =
     (if list_all is_digit cs \<and> strip_trailing_zeros cs \<noteq> [] \<and> strip_trailing_zeros cs \<noteq> cs
      then Some (strip_trailing_zeros cs) else None)"

fun replace_fraction_zeros :: "string \<Rightarrow> string" where
  "replace_fraction_zeros [] = []"
| "replace_fraction_zeros (c # cs) =
     (if c = CHR ''.'' then
        (case fraction_match cs of
           Some body \<Rightarrow> c # body
         | None \<Rightarrow> c # replace_fraction_zeros cs)
      else c # replace_fraction_zeros cs)"

text \<open>\<open>value.replace(/\.$/, '')\<close> removes a point that ends the string.\<close>

definition replace_final_point :: "string \<Rightarrow> string" where
  "replace_final_point cs = (if cs \<noteq> [] \<and> last cs = CHR ''.'' then butlast cs else cs)"

subsection \<open>The helpers of the source\<close>

datatype Operator = Divide | Multiply | Subtract | Add

definition operators :: "Operator \<Rightarrow> number \<Rightarrow> number \<Rightarrow> number" where
  "operators op a b =
     (case op of
        Divide \<Rightarrow> number_divide a b
      | Multiply \<Rightarrow> number_multiply a b
      | Subtract \<Rightarrow> number_subtract a b
      | Add \<Rightarrow> number_add a b)"

definition initialCurrent :: string where
  "initialCurrent = ''0''"

definition MAX_LENGTH :: nat where
  "MAX_LENGTH = 18"

definition sanitizeNumber :: "string \<Rightarrow> string" where
  "sanitizeNumber v =
     (if v = ''Error'' then initialCurrent
      else if v = '''' then initialCurrent
      else v)"

definition trimTrailingZeros :: "string \<Rightarrow> string" where
  "trimTrailingZeros v =
     (if CHR ''.'' \<notin> set v then v
      else
        let trimmed = replace_final_point (replace_fraction_zeros (replace_point_zeros v))
        in if trimmed = '''' then initialCurrent else trimmed)"

definition formatResult :: "number \<Rightarrow> string" where
  "formatResult v =
     (let fixed = parseFloat (toFixed v 10)
      in if \<not> isFinite fixed then ''Error''
         else trimTrailingZeros (number_toString fixed))"

definition compute :: "string \<Rightarrow> string \<Rightarrow> Operator \<Rightarrow> string" where
  "compute a b op =
     (let first = parseFloat a; second = parseFloat b
      in if \<not> isFinite first \<or> \<not> isFinite second then ''Error''
         else if op = Divide \<and> is_zero second then ''Error''
         else formatResult (operators op first second))"

subsection \<open>The component state\<close>

text \<open>
  The four \<open>useState\<close> fields. \<open>previous\<close> and \<open>operator\<close> are \<open>null\<close> when absent.
\<close>

record state =
  current :: string
  previous :: "string option"
  operator :: "Operator option"
  overwrite :: bool

definition initial_state :: state where
  "initial_state =
     \<lparr>current = initialCurrent, previous = None, operator = None, overwrite = False\<rparr>"

text \<open>
  Inside a handler the names \<open>current\<close>, \<open>previous\<close>, \<open>operator\<close> and \<open>overwrite\<close> are
  the constants of the render in which the handler was created: a setter does not
  change them, it records the value for the next render, and of several calls of one
  setter in a handler the last one wins. So every handler below takes the rendered
  state \<open>s\<close>, which all its reads and tests use, and builds the next state by applying
  its setter calls, in the order of the source, starting from \<open>s\<close>. A helper that only
  calls setters (\<open>clearAll\<close>, \<open>resetIfError\<close>) takes the state built so far as its last
  argument.
\<close>

definition setCurrent :: "string \<Rightarrow> state \<Rightarrow> state" where
  "setCurrent v p = p\<lparr>current := v\<rparr>"

definition setPrevious :: "string option \<Rightarrow> state \<Rightarrow> state" where
  "setPrevious v p = p\<lparr>previous := v\<rparr>"

definition setOperator :: "Operator option \<Rightarrow> state \<Rightarrow> state" where
  "setOperator v p = p\<lparr>operator := v\<rparr>"

definition setOverwrite :: "bool \<Rightarrow> state \<Rightarrow> state" where
  "setOverwrite v p = p\<lparr>overwrite := v\<rparr>"

definition clearAll :: "state \<Rightarrow> state" where
  "clearAll p =
     setOverwrite False (setOperator None (setPrevious None (setCurrent initialCurrent p)))"

definition resetIfError :: "state \<Rightarrow> state \<Rightarrow> state" where
  "resetIfError s p = (if current s = ''Error'' then clearAll p else p)"

text \<open>
  \<open>next.replace('-', '')\<close> has a string as its pattern: it removes the first minus
  sign of \<open>next\<close>, wherever it stands, which is \<open>remove1\<close>.
\<close>

definition handleDigit :: "string \<Rightarrow> state \<Rightarrow> state" where
  "handleDigit digit s =
     (let p = resetIfError s s;
          next = (if overwrite s \<or> current s = initialCurrent then digit else current s @ digit)
      in if MAX_LENGTH < length (remove1 (CHR ''-'') next) then p
         else if overwrite s then setOverwrite False (setCurrent next p)
         else setCurrent (if next = '''' then initialCurrent else next) p)"

definition handleDecimal :: "state \<Rightarrow> state" where
  "handleDecimal s =
     (let p = resetIfError s s
      in if CHR ''.'' \<in> set (current s) then p
         else if overwrite s then setOverwrite False (setCurrent ''0.'' p)
         else if MAX_LENGTH < length (remove1 (CHR ''-'') (current s @ ''.'')) then p
         else setCurrent (current s @ ''.'') p)"

text \<open>
  An operator is one of four non-empty strings, so the test \<open>operator &&\<close> asks whether
  \<open>operator\<close> is not \<open>null\<close>.
\<close>

definition handleOperator :: "Operator \<Rightarrow> state \<Rightarrow> state" where
  "handleOperator nextOp s =
     (let p = resetIfError s s;
          p' = (case (operator s, previous s) of
                  (Some op, Some prev) \<Rightarrow>
                    if \<not> overwrite s then
                      let result = compute prev (current s) op
                      in setCurrent result (setPrevious (Some result) p)
                    else setPrevious (Some (current s)) p
                | _ \<Rightarrow> setPrevious (Some (current s)) p)
      in setOverwrite True (setOperator (Some nextOp) p'))"

definition handleEqual :: "state \<Rightarrow> state" where
  "handleEqual s =
     (let p = resetIfError s s
      in case (operator s, previous s) of
           (Some op, Some prev) \<Rightarrow>
             let result = compute prev (current s) op
             in setOverwrite True (setOperator None (setPrevious None (setCurrent result p)))
         | _ \<Rightarrow> p)"

text \<open>\<open>current.slice(0, -1)\<close> is \<open>current\<close> without its last character.\<close>

definition handleDelete :: "state \<Rightarrow> state" where
  "handleDelete s =
     (let p = resetIfError s s
      in if overwrite s then setOverwrite False (setCurrent initialCurrent p)
         else if length (current s) \<le> 1 then setCurrent initialCurrent p
         else setCurrent (butlast (current s)) p)"

text \<open>
  A button of the keypad, by its \<open>action\<close>: a digit button carries its label, an
  operator button its \<open>value\<close>. \<open>buttons\<close> is the keypad of the source, in its order.
\<close>

datatype button =
  Clear | Delete | OperatorButton Operator | DigitButton string | Equal | Decimal

definition handleButtonClick :: "button \<Rightarrow> state \<Rightarrow> state" where
  "handleButtonClick b s =
     (case b of
        DigitButton label \<Rightarrow> handleDigit label s
      | Decimal \<Rightarrow> handleDecimal s
      | OperatorButton v \<Rightarrow> handleOperator v s
      | Equal \<Rightarrow> handleEqual s
      | Clear \<Rightarrow> clearAll s
      | Delete \<Rightarrow> handleDelete s)"

definition displayValue :: "state \<Rightarrow> string" where
  "displayValue s = sanitizeNumber (current s)"

definition buttons :: "button list" where
  "buttons =
     [Clear, Delete, OperatorButton Divide, OperatorButton Multiply,
      DigitButton ''7'', DigitButton ''8'', DigitButton ''9'', OperatorButton Subtract,
      DigitButton ''4'', DigitButton ''5'', DigitButton ''6'', OperatorButton Add,
      DigitButton ''1'', DigitButton ''2'', DigitButton ''3'',
      Equal,
      DigitButton ''0'', Decimal]"

text \<open>The state after a sequence of clicks, and the states the component can be in.\<close>

fun clicks :: "button list \<Rightarrow> state \<Rightarrow> state" where
  "clicks [] s = s"
| "clicks (b # bs) s = clicks bs (handleButtonClick b s)"

inductive reachable :: "state \<Rightarrow> bool" where
  reachable_initial: "reachable initial_state"
| reachable_click: "reachable s \<Longrightarrow> b \<in> set buttons \<Longrightarrow> reachable (handleButtonClick b s)"

subsection \<open>Notions the properties are stated with\<close>

text \<open>
  The buttons that type an operand: the ten digit buttons and the decimal point.
\<close>

definition is_typing :: "button \<Rightarrow> bool" where
  "is_typing b = (case b of DigitButton label \<Rightarrow> True | Decimal \<Rightarrow> True | _ \<Rightarrow> False)"

definition typing_buttons :: "button list" where
  "typing_buttons = filter is_typing buttons"

text \<open>
  The specification measures an operand "with any leading minus sign ignored". That
  is \<open>without_leading_minus\<close>; the source removes the first minus sign with \<open>remove1\<close>,
  and the two agree on a string that has no minus sign after its first character.
\<close>

definition without_leading_minus :: "string \<Rightarrow> string" where
  "without_leading_minus v = (case v of [] \<Rightarrow> [] | c # cs \<Rightarrow> if c = CHR ''-'' then cs else v)"

text \<open>
  An operand as the keypad types it: not empty, at most \<open>MAX_LENGTH\<close> characters, digits
  and points only. \<open>operand_invariant\<close> holds in every state the component reaches:
  \<open>current\<close> is never empty, and it is a typed operand whenever \<open>overwrite\<close> is false.
\<close>

definition typed :: "string \<Rightarrow> bool" where
  "typed v =
     (v \<noteq> [] \<and> length v \<le> MAX_LENGTH \<and> list_all (\<lambda>c. is_digit c \<or> c = CHR ''.'') v)"

definition operand_invariant :: "state \<Rightarrow> bool" where
  "operand_invariant s = (current s \<noteq> [] \<and> (\<not> overwrite s \<longrightarrow> typed (current s)))"

section \<open>Properties\<close>

lemmas setter_defs = setCurrent_def setPrevious_def setOperator_def setOverwrite_def

lemmas handler_defs = handleDigit_def handleDecimal_def handleOperator_def handleEqual_def
  handleDelete_def clearAll_def resetIfError_def

subsection \<open>Evaluations\<close>

lemma compute_2_3_Add: "compute ''2'' ''3'' Add = ''5''"
  by code_simp

lemma parseFloat_0_is_zero: "is_zero (parseFloat ''0'')"
  by code_simp

lemma parseFloat_Error: "parseFloat ''Error'' = NaN"
  by code_simp

text \<open>
  The scenarios of the specification, and the sum that binary64 does not compute
  exactly: \<open>0.1 + 0.2\<close> is \<open>0.30000000000000004\<close>, which \<open>formatResult\<close> prints as
  \<open>0.3\<close>.
\<close>

lemma scenario_sum:
  "current (clicks [DigitButton ''2'', OperatorButton Add, DigitButton ''3'', Equal]
     initial_state) = ''5''"
  by code_simp

lemma scenario_chain:
  "current (clicks [DigitButton ''2'', OperatorButton Add, DigitButton ''3'',
     OperatorButton Multiply, DigitButton ''4'', Equal] initial_state) = ''20''"
  by code_simp

lemma scenario_decimals:
  "current (clicks [DigitButton ''1'', Decimal, DigitButton ''5'', OperatorButton Add,
     DigitButton ''2'', Decimal, DigitButton ''5'', Equal] initial_state) = ''4''"
  by code_simp

lemma sum_of_tenths:
  "number_toString (number_add (parseFloat ''0.1'') (parseFloat ''0.2''))
     = ''0.30000000000000004''
   \<and> compute ''0.1'' ''0.2'' Add = ''0.3''"
  by code_simp

subsection \<open>Typed operands\<close>

lemma digit_button_label:
  assumes "DigitButton d \<in> set buttons"
  shows "\<exists>c. d = [c] \<and> is_digit c"
  using assms by (auto simp: buttons_def is_digit_def)

lemma is_digit_not_minus: "is_digit c \<Longrightarrow> c \<noteq> CHR ''-''"
  by (auto simp: is_digit_def)

lemma is_digit_not_point: "is_digit c \<Longrightarrow> c \<noteq> CHR ''.''"
  by (auto simp: is_digit_def)

lemma typed_no_minus:
  assumes "typed v"
  shows "CHR ''-'' \<notin> set v"
proof
  assume "CHR ''-'' \<in> set v"
  moreover from assms have "list_all (\<lambda>c. is_digit c \<or> c = CHR ''.'') v"
    by (simp add: typed_def)
  ultimately have "is_digit (CHR ''-'') \<or> CHR ''-'' = CHR ''.''"
    unfolding list_all_iff by blast
  then show False by (simp add: is_digit_def)
qed

lemma typed_Nil: "\<not> typed []"
  by (simp add: typed_def)

lemma typed_not_Error: "typed v \<Longrightarrow> v \<noteq> ''Error''"
proof
  assume "typed v" and "v = ''Error''"
  then have "typed ''Error''" by simp
  then show False by (simp add: typed_def is_digit_def)
qed

lemma remove1_absent: "x \<notin> set v \<Longrightarrow> remove1 x (v @ w) = v @ remove1 x w"
  by (induction v) auto

lemma typed_remove1: "typed v \<Longrightarrow> remove1 (CHR ''-'') (v @ [c]) = v @ remove1 (CHR ''-'') [c]"
  by (rule remove1_absent) (rule typed_no_minus)

lemma typed_butlast: "typed v \<Longrightarrow> 1 < length v \<Longrightarrow> typed (butlast v)"
  by (cases v rule: rev_cases) (auto simp: typed_def)

lemma typed_0: "typed ''0''"
  by (simp add: typed_def MAX_LENGTH_def is_digit_def)

lemma typed_0p: "typed ''0.''"
  by (simp add: typed_def MAX_LENGTH_def is_digit_def)

lemma typed_digit: "is_digit c \<Longrightarrow> typed [c]"
  by (simp add: typed_def MAX_LENGTH_def)

lemma typed_snoc:
  assumes "typed v" and "is_digit c \<or> c = CHR ''.''" and "length (v @ [c]) \<le> MAX_LENGTH"
  shows "typed (v @ [c])"
  using assms unfolding typed_def by simp

lemma handleDigit_invariant:
  assumes "operand_invariant s" and "is_digit c"
  shows "operand_invariant (handleDigit [c] s)"
proof (cases "overwrite s")
  case True
  with assms show ?thesis
    by (simp add: operand_invariant_def handler_defs setter_defs Let_def typed_digit
        MAX_LENGTH_def is_digit_not_minus initialCurrent_def typed_0)
next
  case False
  with assms have t: "typed (current s)" by (simp add: operand_invariant_def)
  then have ne: "current s \<noteq> ''Error''" by (rule typed_not_Error)
  from assms(2) have nm: "c \<noteq> CHR ''-''" by (rule is_digit_not_minus)
  show ?thesis
    using False t ne nm assms(2) typed_snoc [OF t, of c]
    by (auto simp: operand_invariant_def handleDigit_def resetIfError_def setter_defs Let_def
        typed_digit typed_remove1 initialCurrent_def not_less typed_Nil)
qed

lemma handleDecimal_invariant:
  assumes "operand_invariant s"
  shows "operand_invariant (handleDecimal s)"
proof (cases "overwrite s")
  case True
  with assms show ?thesis
    by (simp add: operand_invariant_def handler_defs setter_defs Let_def typed_0p typed_0
        initialCurrent_def)
next
  case False
  with assms have t: "typed (current s)" by (simp add: operand_invariant_def)
  then have ne: "current s \<noteq> ''Error''" by (rule typed_not_Error)
  show ?thesis
    using False t ne typed_snoc [OF t, of "CHR ''.''"]
    by (auto simp: operand_invariant_def handleDecimal_def resetIfError_def setter_defs Let_def
        typed_remove1 not_less typed_Nil)
qed

lemma handleDelete_invariant:
  assumes "operand_invariant s"
  shows "operand_invariant (handleDelete s)"
proof (cases "overwrite s")
  case True
  with assms show ?thesis
    by (simp add: operand_invariant_def handler_defs setter_defs Let_def typed_0 initialCurrent_def)
next
  case False
  with assms have t: "typed (current s)" by (simp add: operand_invariant_def)
  then have ne: "current s \<noteq> ''Error''" by (rule typed_not_Error)
  have "typed (butlast (current s))" if "1 < length (current s)"
    using t that by (rule typed_butlast)
  then have "butlast (current s) \<noteq> []" if "1 < length (current s)"
    using that by (simp add: typed_def)
  with False t ne show ?thesis
    using typed_butlast [OF t]
    by (auto simp: operand_invariant_def handleDelete_def resetIfError_def setter_defs Let_def
        typed_0 initialCurrent_def not_le)
qed

subsection \<open>Results are never empty\<close>

lemma digits_of_nonempty: "digits_of n \<noteq> []"
  by (subst digits_of.simps) simp

lemma shortest_digits_nonempty: "fst (shortest_digits p q) \<noteq> []"
  by (simp add: shortest_digits_def Let_def split: prod.splits)

lemma format_nonempty:
  assumes "ds \<noteq> []"
  shows "(if k \<le> n \<and> n \<le> 21 then ds @ z
         else if 0 < n \<and> n \<le> 21 then take (nat n) ds @ ''.'' @ drop (nat n) ds
         else if - 6 < n \<and> n \<le> 0 then ''0.'' @ y @ ds
         else if k = 1 then ds @ ''e'' @ es
              else take 1 ds @ ''.'' @ drop 1 ds @ ''e'' @ es) \<noteq> []"
  using assms by simp

lemma positive_toString_nonempty: "positive_toString p q \<noteq> []"
proof -
  obtain ds n where sd: "shortest_digits p q = (ds, n)" by (cases "shortest_digits p q")
  with shortest_digits_nonempty [of p q] have "ds \<noteq> []" by simp
  then show ?thesis
    unfolding positive_toString_def sd Let_def prod.case
    by (rule format_nonempty)
qed

lemma number_toString_nonempty: "number_toString x \<noteq> []"
  by (cases x) (simp_all add: number_toString_def positive_toString_nonempty)

lemma trimTrailingZeros_nonempty: "v \<noteq> [] \<Longrightarrow> trimTrailingZeros v \<noteq> []"
  by (simp add: trimTrailingZeros_def Let_def initialCurrent_def)

lemma formatResult_nonempty: "formatResult x \<noteq> []"
  by (simp add: formatResult_def Let_def trimTrailingZeros_nonempty number_toString_nonempty)

lemma compute_nonempty: "compute a b op \<noteq> []"
  by (simp add: compute_def Let_def formatResult_nonempty)

subsection \<open>The invariant of the reachable states\<close>

lemma handleOperator_invariant:
  assumes "operand_invariant s"
  shows "operand_invariant (handleOperator nextOp s)"
  using assms
  by (auto simp: operand_invariant_def handleOperator_def resetIfError_def clearAll_def
      setter_defs Let_def compute_nonempty initialCurrent_def split: option.splits)

lemma handleEqual_invariant:
  assumes "operand_invariant s"
  shows "operand_invariant (handleEqual s)"
  using assms
  by (auto simp: operand_invariant_def handleEqual_def resetIfError_def clearAll_def
      setter_defs Let_def compute_nonempty initialCurrent_def typed_0 split: option.splits)

lemma clearAll_invariant: "operand_invariant (clearAll s)"
  by (simp add: operand_invariant_def clearAll_def setter_defs initialCurrent_def typed_0)

lemma handleButtonClick_invariant:
  assumes "operand_invariant s" and "b \<in> set buttons"
  shows "operand_invariant (handleButtonClick b s)"
proof (cases b)
  case (DigitButton d)
  with assms(2) obtain c where "d = [c]" "is_digit c"
    using digit_button_label by blast
  with DigitButton assms(1) show ?thesis
    by (simp add: handleButtonClick_def handleDigit_invariant)
qed (simp_all add: handleButtonClick_def assms(1) handleDecimal_invariant handleDelete_invariant
      handleOperator_invariant handleEqual_invariant clearAll_invariant)

lemma reachable_invariant: "reachable s \<Longrightarrow> operand_invariant s"
proof (induction rule: reachable.induct)
  case reachable_initial
  show ?case
    by (simp add: operand_invariant_def initial_state_def initialCurrent_def typed_0)
next
  case (reachable_click s b)
  then show ?case by (simp add: handleButtonClick_invariant)
qed

lemma reachable_clicks: "reachable s \<Longrightarrow> set bs \<subseteq> set buttons \<Longrightarrow> reachable (clicks bs s)"
  by (induction bs arbitrary: s) (auto intro: reachable_click)

lemma handleButtonClick_pending:
  assumes "(operator s = None) = (previous s = None)"
  shows "(operator (handleButtonClick b s) = None) = (previous (handleButtonClick b s) = None)"
  using assms
  by (cases b)
     (auto simp: handleButtonClick_def handler_defs setter_defs Let_def split: option.splits)

lemma reachable_pending: "reachable s \<Longrightarrow> (operator s = None) = (previous s = None)"
  by (induction rule: reachable.induct)
     (simp_all add: initial_state_def handleButtonClick_pending)

section \<open>The claims\<close>

subsection \<open>C3: the operator action\<close>

text \<open>
  C3. In a state whose \<open>current\<close> is not \<open>Error\<close>, \<open>handleOperator nextOp\<close> does one of
  two things. When an operator \<open>op\<close> is pending, \<open>previous\<close> is present (\<open>prev\<close>) and
  \<open>overwrite\<close> is false, it computes \<open>compute prev current op\<close> and stores the result in
  both \<open>previous\<close> and \<open>current\<close>. In every other case it stores \<open>current\<close> in
  \<open>previous\<close> and leaves \<open>current\<close> unchanged. In both cases \<open>operator\<close> becomes
  \<open>nextOp\<close> and \<open>overwrite\<close> becomes true.
\<close>

theorem handleOperator_spec:
  assumes "current s \<noteq> ''Error''"
  shows "(operator s = Some op \<and> previous s = Some prev \<and> \<not> overwrite s \<longrightarrow>
            handleOperator nextOp s =
              s\<lparr>current := compute prev (current s) op,
                previous := Some (compute prev (current s) op),
                operator := Some nextOp, overwrite := True\<rparr>)
       \<and> (operator s = None \<or> previous s = None \<or> overwrite s \<longrightarrow>
            handleOperator nextOp s =
              s\<lparr>previous := Some (current s), operator := Some nextOp, overwrite := True\<rparr>)"
  using assms
  by (auto simp: handleOperator_def resetIfError_def setter_defs Let_def split: option.splits)

theorem handleOperator_spec_witness:
  "current \<lparr>current = ''3'', previous = Some ''2'', operator = Some Add, overwrite = False\<rparr>
     \<noteq> ''Error''
   \<and> handleOperator Multiply
        \<lparr>current = ''3'', previous = Some ''2'', operator = Some Add, overwrite = False\<rparr>
      = \<lparr>current = ''5'', previous = Some ''5'', operator = Some Multiply, overwrite = True\<rparr>
   \<and> handleOperator Multiply
        \<lparr>current = ''3'', previous = None, operator = None, overwrite = False\<rparr>
      = \<lparr>current = ''3'', previous = Some ''3'', operator = Some Multiply, overwrite = True\<rparr>"
  using
    handleOperator_spec [of "\<lparr>current = ''3'', previous = Some ''2'', operator = Some Add,
      overwrite = False\<rparr>" Add "''2''" Multiply]
    handleOperator_spec [of "\<lparr>current = ''3'', previous = None, operator = None,
      overwrite = False\<rparr>" Add "''2''" Multiply]
  by (simp add: compute_2_3_Add)

subsection \<open>C5: division by zero\<close>

text \<open>
  C5. For every string \<open>a\<close> and every string \<open>b\<close> that parses to zero (\<open>+0\<close> or \<open>-0\<close>,
  the values the test \<open>second === 0\<close> accepts), \<open>compute a b Divide\<close> is \<open>Error\<close>,
  whether \<open>a\<close> parses to a finite number or not.
\<close>

theorem compute_divide_by_zero:
  assumes "is_zero (parseFloat b)"
  shows "compute a b Divide = ''Error''"
  using assms by (simp add: compute_def Let_def)

theorem compute_divide_by_zero_witness:
  "is_zero (parseFloat ''0'') \<and> compute ''7'' ''0'' Divide = ''Error''
   \<and> compute ''Error'' ''0'' Divide = ''Error''"
  using compute_divide_by_zero [OF parseFloat_0_is_zero, of "''7''"]
    compute_divide_by_zero [OF parseFloat_0_is_zero, of "''Error''"]
    parseFloat_0_is_zero
  by simp

subsection \<open>C7: the displayed value\<close>

text \<open>
  C7. The value on the current-value line is \<open>sanitizeNumber current\<close>: it is \<open>0\<close> when
  \<open>current\<close> is the empty string or the sentinel \<open>Error\<close>, and \<open>current\<close> itself
  otherwise.
\<close>

theorem displayValue_spec:
  "displayValue s = (if current s = '''' \<or> current s = ''Error'' then ''0'' else current s)"
  by (simp add: displayValue_def sanitizeNumber_def initialCurrent_def)

subsection \<open>C9: a pending operator has a previous operand\<close>

text \<open>
  C9. In every reachable state \<open>operator\<close> is present if and only if \<open>previous\<close> is
  present, and every click, on any button, preserves this: if it holds before the click
  it holds after it.
\<close>

theorem operator_iff_previous:
  "(reachable s \<longrightarrow> (operator s = None \<longleftrightarrow> previous s = None))
   \<and> ((operator s = None \<longleftrightarrow> previous s = None) \<longrightarrow>
        (operator (handleButtonClick b s) = None
           \<longleftrightarrow> previous (handleButtonClick b s) = None))"
  using reachable_pending [of s] handleButtonClick_pending [of s b] by blast

theorem operator_iff_previous_witness:
  "reachable initial_state
   \<and> (operator initial_state = None \<longleftrightarrow> previous initial_state = None)
   \<and> (operator (handleButtonClick (OperatorButton Add) initial_state) = None
        \<longleftrightarrow> previous (handleButtonClick (OperatorButton Add) initial_state) = None)"
  using operator_iff_previous [of initial_state "OperatorButton Add"] reachable_initial
  by argo

subsection \<open>C10: the operand is never empty\<close>

text \<open>
  C10. In every reachable state \<open>current\<close> is not the empty string.
\<close>

theorem current_never_empty: "reachable s \<Longrightarrow> current s \<noteq> ''''"
  using reachable_invariant [of s] by (simp add: operand_invariant_def)

theorem current_never_empty_witness:
  "reachable (clicks [DigitButton ''2'', Delete] initial_state)
   \<and> current (clicks [DigitButton ''2'', Delete] initial_state) \<noteq> ''''"
proof -
  have r: "reachable (clicks [DigitButton ''2'', Delete] initial_state)"
    by (rule reachable_clicks [OF reachable_initial]) (simp add: buttons_def)
  from r current_never_empty [OF r] show ?thesis by simp
qed

subsection \<open>C4: the equal action\<close>

lemma typing_button_cases:
  assumes "b \<in> set typing_buttons"
  shows "b = Decimal \<or> (\<exists>c. b = DigitButton [c] \<and> is_digit c)"
  using assms by (auto simp: typing_buttons_def buttons_def is_typing_def is_digit_def)

lemma snoc_digit_not_Error: "is_digit c \<Longrightarrow> v @ [c] \<noteq> ''Error''"
proof
  assume d: "is_digit c" and "v @ [c] = ''Error''"
  then have "last (v @ [c]) = last ''Error''" by simp
  then have "c = CHR ''r''" by simp
  with d show False by (simp add: is_digit_def)
qed

lemma snoc_point_not_Error: "v @ ''.'' \<noteq> ''Error''"
proof
  assume "v @ ''.'' = ''Error''"
  then have "last (v @ ''.'') = last ''Error''" by simp
  then show False by simp
qed

lemma handleDigit_keeps_pending:
  assumes "current t \<noteq> ''Error''" and "is_digit c"
  shows "current (handleDigit [c] t) \<noteq> ''Error''
       \<and> previous (handleDigit [c] t) = previous t
       \<and> operator (handleDigit [c] t) = operator t"
  using assms snoc_digit_not_Error [of c "current t"]
  by (simp add: handleDigit_def resetIfError_def setter_defs Let_def)

lemma handleDecimal_keeps_pending:
  assumes "current t \<noteq> ''Error''"
  shows "current (handleDecimal t) \<noteq> ''Error''
       \<and> previous (handleDecimal t) = previous t
       \<and> operator (handleDecimal t) = operator t"
  using assms snoc_point_not_Error [of "current t"]
  by (simp add: handleDecimal_def resetIfError_def setter_defs Let_def)

lemma typing_keeps_pending:
  assumes "current t \<noteq> ''Error''" and "set keys \<subseteq> set typing_buttons"
  shows "current (clicks keys t) \<noteq> ''Error''
       \<and> previous (clicks keys t) = previous t
       \<and> operator (clicks keys t) = operator t"
  using assms
proof (induction keys arbitrary: t)
  case Nil
  then show ?case by simp
next
  case (Cons b keys)
  from Cons.prems(2) have b: "b \<in> set typing_buttons" and ks: "set keys \<subseteq> set typing_buttons"
    by simp_all
  have step: "current (handleButtonClick b t) \<noteq> ''Error''
       \<and> previous (handleButtonClick b t) = previous t
       \<and> operator (handleButtonClick b t) = operator t"
    using typing_button_cases [OF b] handleDigit_keeps_pending [OF Cons.prems(1)]
      handleDecimal_keeps_pending [OF Cons.prems(1)]
    by (auto simp: handleButtonClick_def)
  with Cons.IH [of "handleButtonClick b t"] ks show ?case by simp
qed

lemma handleEqual_cases:
  assumes "current s \<noteq> ''Error''"
  shows "(operator s = None \<or> previous s = None \<longrightarrow> handleEqual s = s)
       \<and> (operator s = Some op \<and> previous s = Some prev \<longrightarrow>
            handleEqual s =
              s\<lparr>current := compute prev (current s) op, previous := None,
                operator := None, overwrite := True\<rparr>)"
  using assms
  by (auto simp: handleEqual_def resetIfError_def setter_defs Let_def split: option.splits)

lemma handleOperator_first:
  assumes "current s \<noteq> ''Error''" and "operator s = None \<or> previous s = None \<or> overwrite s"
  shows "handleOperator op1 s =
           s\<lparr>previous := Some (current s), operator := Some op1, overwrite := True\<rparr>"
  using assms
  by (auto simp: handleOperator_def resetIfError_def setter_defs Let_def split: option.splits)

lemma equal_after_typing:
  assumes "current s \<noteq> ''Error''" and "operator s = None \<or> previous s = None \<or> overwrite s"
    and "set keys \<subseteq> set typing_buttons"
  shows "current (handleEqual (clicks keys (handleOperator op1 s)))
           = compute (current s) (current (clicks keys (handleOperator op1 s))) op1"
proof -
  let ?t = "handleOperator op1 s"
  have t: "?t = s\<lparr>previous := Some (current s), operator := Some op1, overwrite := True\<rparr>"
    using assms(1,2) by (rule handleOperator_first)
  then have "current ?t \<noteq> ''Error''" using assms(1) by simp
  from typing_keeps_pending [OF this assms(3)]
  have u: "current (clicks keys ?t) \<noteq> ''Error''"
    "previous (clicks keys ?t) = Some (current s)" "operator (clicks keys ?t) = Some op1"
    by (simp_all add: t)
  from handleEqual_cases [OF u(1), of op1 "current s"] u(2,3)
  show ?thesis by simp
qed

text \<open>
  C4. In a state whose \<open>current\<close> is not \<open>Error\<close>, \<open>handleEqual\<close> changes nothing
  when no operator is pending (the source returns when \<open>operator\<close> or \<open>previous\<close> is
  \<open>null\<close>); with an operator \<open>op\<close> pending and \<open>previous\<close> present (\<open>prev\<close>) it sets
  \<open>current\<close> to \<open>compute prev current op\<close>, clears \<open>previous\<close> and \<open>operator\<close> and
  sets \<open>overwrite\<close>. So after one operator press \<open>op1\<close> on an operand \<open>current s\<close>
  (a press that does not collapse a pending chain) and any typing of digits and
  points, equal yields \<open>compute\<close> of the first operand, the typed operand and \<open>op1\<close>.
\<close>

theorem handleEqual_spec:
  assumes "current s \<noteq> ''Error''"
  shows "(operator s = None \<or> previous s = None \<longrightarrow> handleEqual s = s)
       \<and> (operator s = Some op \<and> previous s = Some prev \<longrightarrow>
            handleEqual s =
              s\<lparr>current := compute prev (current s) op, previous := None,
                operator := None, overwrite := True\<rparr>)
       \<and> ((operator s = None \<or> previous s = None \<or> overwrite s)
            \<and> set keys \<subseteq> set typing_buttons \<longrightarrow>
            current (handleEqual (clicks keys (handleOperator op1 s)))
              = compute (current s) (current (clicks keys (handleOperator op1 s))) op1)"
  using handleEqual_cases [OF assms, of op prev] equal_after_typing [OF assms, of keys op1]
  by blast

lemma clicks_2_plus_3:
  "handleButtonClick (DigitButton ''3'') (handleOperator Add
      \<lparr>current = ''2'', previous = None, operator = None, overwrite = False\<rparr>)
   = \<lparr>current = ''3'', previous = Some ''2'', operator = Some Add, overwrite = False\<rparr>"
  by (simp add: handleButtonClick_def handler_defs setter_defs Let_def MAX_LENGTH_def
      initialCurrent_def)

theorem handleEqual_spec_witness:
  "current \<lparr>current = ''2'', previous = None, operator = None, overwrite = False\<rparr> \<noteq> ''Error''
   \<and> handleEqual \<lparr>current = ''2'', previous = None, operator = None, overwrite = False\<rparr>
       = \<lparr>current = ''2'', previous = None, operator = None, overwrite = False\<rparr>
   \<and> set [DigitButton ''3''] \<subseteq> set typing_buttons
   \<and> current (handleEqual (clicks [DigitButton ''3''] (handleOperator Add
        \<lparr>current = ''2'', previous = None, operator = None, overwrite = False\<rparr>))) = ''5''
   \<and> handleEqual \<lparr>current = ''3'', previous = Some ''2'', operator = Some Add, overwrite = False\<rparr>
       = \<lparr>current = ''5'', previous = None, operator = None, overwrite = True\<rparr>"
proof -
  have k: "set [DigitButton ''3''] \<subseteq> set typing_buttons"
    by (simp add: typing_buttons_def buttons_def is_typing_def)
  show ?thesis
    using k
      handleEqual_spec [of "\<lparr>current = ''2'', previous = None, operator = None,
        overwrite = False\<rparr>" Add "''2''" "[DigitButton ''3'']" Add]
      handleEqual_spec [of "\<lparr>current = ''3'', previous = Some ''2'', operator = Some Add,
        overwrite = False\<rparr>" Add "''2''" "[]" Add]
    by (simp add: clicks_2_plus_3 compute_2_3_Add)
qed

subsection \<open>C6: the digit action\<close>

lemma minus_leading_agree:
  assumes "CHR ''-'' \<notin> set (tl v)"
  shows "remove1 (CHR ''-'') v = without_leading_minus v"
proof (cases v)
  case Nil
  then show ?thesis by (simp add: without_leading_minus_def)
next
  case (Cons c cs)
  with assms have "CHR ''-'' \<notin> set cs" by simp
  then have "remove1 (CHR ''-'') cs = cs" by (rule remove1_idem)
  with Cons show ?thesis by (simp add: without_leading_minus_def)
qed

lemma tl_snoc_digit:
  assumes "CHR ''-'' \<notin> set (tl v)" and "is_digit c"
  shows "CHR ''-'' \<notin> set (tl (v @ [c]))"
  using assms is_digit_not_minus [of c] by (cases v) auto

text \<open>
  C6. In a state whose \<open>current\<close> is not \<open>Error\<close>, and for the label \<open>d\<close> of a digit
  button: the next operand is \<open>d\<close> when \<open>overwrite\<close> is true or \<open>current\<close> is \<open>0\<close>, and
  \<open>current\<close> followed by \<open>d\<close> otherwise; when it has more than 18 characters, a leading
  minus sign not counted, the state is unchanged; otherwise it becomes \<open>current\<close>, and
  \<open>overwrite\<close> is cleared when it was set.

  The source does not look for a leading minus sign: it removes the first one, wherever
  it is. The two agree when \<open>current\<close> has no minus sign after its first character,
  which the third hypothesis says; it is needed only when \<open>d\<close> is appended, that is,
  when \<open>overwrite\<close> is false. Every reachable state satisfies it
  (\<open>reachable_minus_leading\<close>, below).
\<close>

theorem handleDigit_spec:
  assumes "current s \<noteq> ''Error''" and "DigitButton d \<in> set buttons"
    and "overwrite s \<or> CHR ''-'' \<notin> set (tl (current s))"
  shows "handleDigit d s =
     (let next = (if overwrite s \<or> current s = ''0'' then d else current s @ d)
      in if 18 < length (without_leading_minus next) then s
         else if overwrite s then s\<lparr>current := next, overwrite := False\<rparr>
         else s\<lparr>current := next\<rparr>)"
proof -
  from assms(2) obtain c where d: "d = [c]" and c: "is_digit c"
    using digit_button_label by blast
  from c have nm: "c \<noteq> CHR ''-''" by (rule is_digit_not_minus)
  show ?thesis
  proof (cases "overwrite s \<or> current s = ''0''")
    case True
    with assms(1) nm show ?thesis
      by (auto simp: d handleDigit_def resetIfError_def setter_defs Let_def MAX_LENGTH_def
          initialCurrent_def without_leading_minus_def)
  next
    case False
    with assms(3) have "CHR ''-'' \<notin> set (tl (current s @ [c]))"
      using tl_snoc_digit [OF _ c] by simp
    then have "remove1 (CHR ''-'') (current s @ [c]) = without_leading_minus (current s @ [c])"
      by (rule minus_leading_agree)
    with False assms(1) show ?thesis
      by (simp add: d handleDigit_def resetIfError_def setter_defs Let_def MAX_LENGTH_def
          initialCurrent_def)
  qed
qed

theorem handleDigit_spec_witness:
  "DigitButton ''7'' \<in> set buttons
   \<and> handleDigit ''7'' \<lparr>current = ''12'', previous = None, operator = None, overwrite = False\<rparr>
       = \<lparr>current = ''127'', previous = None, operator = None, overwrite = False\<rparr>
   \<and> handleDigit ''7''
         \<lparr>current = ''123456789012345678'', previous = None, operator = None, overwrite = False\<rparr>
       = \<lparr>current = ''123456789012345678'', previous = None, operator = None, overwrite = False\<rparr>
   \<and> handleDigit ''7''
         \<lparr>current = ''12'', previous = Some ''12'', operator = Some Add, overwrite = True\<rparr>
       = \<lparr>current = ''7'', previous = Some ''12'', operator = Some Add, overwrite = False\<rparr>"
proof -
  have b: "DigitButton ''7'' \<in> set buttons" by (simp add: buttons_def)
  show ?thesis
    using b
      handleDigit_spec [OF _ b, of "\<lparr>current = ''12'', previous = None, operator = None,
        overwrite = False\<rparr>"]
      handleDigit_spec [OF _ b, of "\<lparr>current = ''123456789012345678'', previous = None,
        operator = None, overwrite = False\<rparr>"]
      handleDigit_spec [OF _ b, of "\<lparr>current = ''12'', previous = Some ''12'',
        operator = Some Add, overwrite = True\<rparr>"]
    by (simp add: without_leading_minus_def)
qed

text \<open>
  Without that hypothesis, and for any label: what \<open>handleDigit\<close> does in every state
  whose \<open>current\<close> is not \<open>Error\<close>, with the first minus sign removed as the source
  removes it.
\<close>

lemma handleDigit_first_minus:
  assumes "current s \<noteq> ''Error''"
  shows "handleDigit d s =
     (let next = (if overwrite s \<or> current s = ''0'' then d else current s @ d)
      in if 18 < length (remove1 (CHR ''-'') next) then s
         else if overwrite s then s\<lparr>current := next, overwrite := False\<rparr>
         else s\<lparr>current := (if next = [] then ''0'' else next)\<rparr>)"
  using assms
  by (simp add: handleDigit_def resetIfError_def setter_defs Let_def MAX_LENGTH_def
      initialCurrent_def)

lemma reachable_minus_leading:
  assumes "reachable s"
  shows "overwrite s \<or> CHR ''-'' \<notin> set (tl (current s))"
proof (cases "overwrite s")
  case False
  with reachable_invariant [OF assms] have "typed (current s)"
    by (simp add: operand_invariant_def)
  then have "CHR ''-'' \<notin> set (current s)" by (rule typed_no_minus)
  then show ?thesis by (cases "current s") auto
qed simp

subsection \<open>C2: the length of the operand\<close>

lemma typed_capped: "typed v \<Longrightarrow> length (without_leading_minus v) \<le> 18"
proof -
  assume t: "typed v"
  then have "CHR ''-'' \<notin> set v" by (rule typed_no_minus)
  then have "without_leading_minus v = v"
    by (cases v) (auto simp: without_leading_minus_def)
  with t show ?thesis by (simp add: typed_def MAX_LENGTH_def)
qed

text \<open>
  The operands the keypad types are capped: in every reachable state in which
  \<open>overwrite\<close> is false, \<open>current\<close> has at most \<open>MAX_LENGTH\<close> characters. That is the
  guard of \<open>handleDigit\<close> and \<open>handleDecimal\<close>.
\<close>

lemma typed_operand_capped:
  assumes "reachable s" and "\<not> overwrite s"
  shows "length (without_leading_minus (current s)) \<le> 18"
proof -
  from reachable_invariant [OF assms(1)] assms(2) have "typed (current s)"
    by (simp add: operand_invariant_def)
  then show ?thesis by (rule typed_capped)
qed

lemma nines_plus_zero:
  "clicks [DigitButton ''9'', DigitButton ''9'', DigitButton ''9'', DigitButton ''9'',
           DigitButton ''9'', DigitButton ''9'', DigitButton ''9'', DigitButton ''9'',
           DigitButton ''9'', DigitButton ''9'', DigitButton ''9'', DigitButton ''9'',
           DigitButton ''9'', DigitButton ''9'', DigitButton ''9'', DigitButton ''9'',
           DigitButton ''9'', DigitButton ''9'', OperatorButton Add, DigitButton ''0'', Equal]
      initial_state
   = \<lparr>current = ''1000000000000000000'', previous = None, operator = None, overwrite = True\<rparr>"
  by code_simp

text \<open>
  C2 says that in every state reached from the initial state \<open>current\<close>, a leading
  minus sign not counted, has at most 18 characters, also when it is a result of
  \<open>compute\<close>. The constant \<open>MAX_LENGTH\<close> is there to limit the length of the number so
  that the display does not overflow, and \<open>handleDigit\<close> and \<open>handleDecimal\<close> test it
  before they call \<open>setCurrent\<close>; \<open>handleEqual\<close> and \<open>handleOperator\<close> call
  \<open>setCurrent\<close> with the result of \<open>compute\<close> and test nothing. So the code breaks the
  bound: eighteen nines, plus, zero, equal is a sequence of clicks on the keypad, and it
  leaves the nineteen characters \<open>1000000000000000000\<close> in \<open>current\<close> (\<open>parseFloat\<close>
  rounds 999999999999999999 to the binary64 value \<open>10 ^ 18\<close>, and \<open>formatResult\<close> prints
  it in full).
\<close>

theorem result_exceeds_MAX_LENGTH:
  "clicks [DigitButton ''9'', DigitButton ''9'', DigitButton ''9'', DigitButton ''9'',
           DigitButton ''9'', DigitButton ''9'', DigitButton ''9'', DigitButton ''9'',
           DigitButton ''9'', DigitButton ''9'', DigitButton ''9'', DigitButton ''9'',
           DigitButton ''9'', DigitButton ''9'', DigitButton ''9'', DigitButton ''9'',
           DigitButton ''9'', DigitButton ''9'', OperatorButton Add, DigitButton ''0'', Equal]
      initial_state
     = \<lparr>current = ''1000000000000000000'', previous = None, operator = None, overwrite = True\<rparr>
   \<and> reachable
       \<lparr>current = ''1000000000000000000'', previous = None, operator = None, overwrite = True\<rparr>
   \<and> \<not> length (without_leading_minus (current
         \<lparr>current = ''1000000000000000000'', previous = None, operator = None,
           overwrite = True\<rparr>)) \<le> MAX_LENGTH"
proof -
  have "reachable (clicks
          [DigitButton ''9'', DigitButton ''9'', DigitButton ''9'', DigitButton ''9'',
           DigitButton ''9'', DigitButton ''9'', DigitButton ''9'', DigitButton ''9'',
           DigitButton ''9'', DigitButton ''9'', DigitButton ''9'', DigitButton ''9'',
           DigitButton ''9'', DigitButton ''9'', DigitButton ''9'', DigitButton ''9'',
           DigitButton ''9'', DigitButton ''9'', OperatorButton Add, DigitButton ''0'', Equal]
          initial_state)"
    by (rule reachable_clicks [OF reachable_initial]) (simp add: buttons_def)
  then have r: "reachable
     \<lparr>current = ''1000000000000000000'', previous = None, operator = None, overwrite = True\<rparr>"
    by (simp only: nines_plus_zero)
  have "\<not> length (without_leading_minus (current
         \<lparr>current = ''1000000000000000000'', previous = None, operator = None,
           overwrite = True\<rparr>)) \<le> MAX_LENGTH"
    by (simp add: without_leading_minus_def MAX_LENGTH_def)
  with r nines_plus_zero show ?thesis by blast
qed

subsection \<open>C8: trimming is idempotent\<close>

lemma strip_trailing_zeros_last:
  assumes "strip_trailing_zeros v \<noteq> []"
  shows "last (strip_trailing_zeros v) \<noteq> CHR ''0''"
proof -
  let ?d = "dropWhile (\<lambda>c. c = CHR ''0'') (rev v)"
  from assms have ne: "?d \<noteq> []" by (simp add: strip_trailing_zeros_def)
  then have "hd ?d \<noteq> CHR ''0''" using hd_dropWhile [of "\<lambda>c. c = CHR ''0''" "rev v"] by simp
  with ne show ?thesis by (simp add: strip_trailing_zeros_def last_rev)
qed

lemma strip_trailing_zeros_idem:
  "strip_trailing_zeros (strip_trailing_zeros v) = strip_trailing_zeros v"
  by (simp add: strip_trailing_zeros_def)

lemma strip_trailing_zeros_set: "set (strip_trailing_zeros v) \<subseteq> set v"
  using set_dropWhileD [of _ "\<lambda>c. c = CHR ''0''" "rev v"]
  by (auto simp: strip_trailing_zeros_def)

lemma not_zeros_to_end:
  assumes "v \<noteq> []" and "last v \<noteq> CHR ''0''"
  shows "\<not> zeros_to_end v"
proof
  assume "zeros_to_end v"
  then have "\<forall>c \<in> set v. c = CHR ''0''" by (simp add: zeros_to_end_def list_all_iff)
  moreover from assms(1) have "last v \<in> set v" by simp
  ultimately show False using assms(2) by blast
qed

lemma replace_point_zeros_no_point:
  "CHR ''.'' \<notin> set v \<Longrightarrow> replace_point_zeros v = v"
  by (induction v) auto

lemma replace_fraction_zeros_no_point:
  "CHR ''.'' \<notin> set v \<Longrightarrow> replace_fraction_zeros v = v"
  by (induction v) auto

lemma replace_final_point_no_point:
  "CHR ''.'' \<notin> set v \<Longrightarrow> replace_final_point v = v"
proof (cases "v = []")
  case False
  assume "CHR ''.'' \<notin> set v"
  moreover from False have "last v \<in> set v" by simp
  ultimately have "last v \<noteq> CHR ''.''" by metis
  then show ?thesis by (simp add: replace_final_point_def)
qed (simp add: replace_final_point_def)

lemma trimTrailingZeros_no_point:
  "CHR ''.'' \<notin> set v \<Longrightarrow> trimTrailingZeros v = v"
  by (simp add: trimTrailingZeros_def)

lemma replace_point_zeros_split:
  assumes "CHR ''.'' \<notin> set pre" and "CHR ''.'' \<notin> set post"
  shows "replace_point_zeros (pre @ CHR ''.'' # post)
         = (if zeros_to_end post then pre else pre @ CHR ''.'' # post)"
  using assms
  by (induction pre) (auto simp: replace_point_zeros_no_point)

lemma replace_fraction_zeros_split:
  assumes "CHR ''.'' \<notin> set pre" and "CHR ''.'' \<notin> set post"
  shows "replace_fraction_zeros (pre @ CHR ''.'' # post)
         = pre @ CHR ''.'' # (case fraction_match post of Some body \<Rightarrow> body | None \<Rightarrow> post)"
  using assms
  by (induction pre) (auto simp: replace_fraction_zeros_no_point split: option.splits)

lemma replace_final_point_split:
  assumes "CHR ''.'' \<notin> set post"
  shows "replace_final_point (pre @ CHR ''.'' # post)
         = (if post = [] then pre else pre @ CHR ''.'' # post)"
proof (cases "post = []")
  case True
  then show ?thesis by (simp add: replace_final_point_def)
next
  case False
  then have "last post \<in> set post" by simp
  with assms have "last post \<noteq> CHR ''.''" by metis
  with False show ?thesis by (simp add: replace_final_point_def)
qed

text \<open>The value of trimTrailingZeros on a string with exactly one point.\<close>

lemma trimTrailingZeros_split:
  assumes "CHR ''.'' \<notin> set pre" and "CHR ''.'' \<notin> set post"
  shows "trimTrailingZeros (pre @ CHR ''.'' # post)
         = (if zeros_to_end post \<or> post = [] then (if pre = [] then ''0'' else pre)
            else pre @ CHR ''.'' # (case fraction_match post of Some body \<Rightarrow> body | None \<Rightarrow> post))"
proof -
  let ?x = "pre @ CHR ''.'' # post"
  let ?B = "case fraction_match post of Some body \<Rightarrow> body | None \<Rightarrow> post"
  have sub: "CHR ''.'' \<notin> set ?B"
    using assms(2) strip_trailing_zeros_set [of post]
    by (auto simp: fraction_match_def split: option.splits if_splits)
  have B_empty: "?B = [] \<longleftrightarrow> post = []"
    by (auto simp: fraction_match_def strip_trailing_zeros_def split: option.splits if_splits)
  have unfold: "trimTrailingZeros ?x =
      (let trimmed = replace_final_point (replace_fraction_zeros (replace_point_zeros ?x))
       in if trimmed = [] then ''0'' else trimmed)"
    by (simp add: trimTrailingZeros_def initialCurrent_def Let_def)
  show ?thesis
  proof (cases "zeros_to_end post")
    case True
    then have "replace_point_zeros ?x = pre"
      by (simp add: replace_point_zeros_split [OF assms])
    then have "replace_final_point (replace_fraction_zeros (replace_point_zeros ?x)) = pre"
      using assms(1)
      by (simp add: replace_fraction_zeros_no_point replace_final_point_no_point)
    with True show ?thesis unfolding unfold by (simp add: Let_def)
  next
    case False
    then have "replace_point_zeros ?x = ?x"
      by (simp add: replace_point_zeros_split [OF assms])
    then have "replace_fraction_zeros (replace_point_zeros ?x) = pre @ CHR ''.'' # ?B"
      by (simp add: replace_fraction_zeros_split [OF assms])
    then have "replace_final_point (replace_fraction_zeros (replace_point_zeros ?x))
        = (if ?B = [] then pre else pre @ CHR ''.'' # ?B)"
      by (simp only: replace_final_point_split [OF sub])
    with False B_empty show ?thesis unfolding unfold by (simp add: Let_def)
  qed
qed

lemma fraction_match_body:
  assumes "fraction_match post = Some body"
  shows "body \<noteq> [] \<and> \<not> zeros_to_end body \<and> fraction_match body = None"
proof -
  from assms have b: "body = strip_trailing_zeros post" and ne: "strip_trailing_zeros post \<noteq> []"
    by (auto simp: fraction_match_def split: if_splits)
  from ne have "last body \<noteq> CHR ''0''" unfolding b by (rule strip_trailing_zeros_last)
  with ne b have "\<not> zeros_to_end body" by (simp add: not_zeros_to_end)
  moreover have "fraction_match body = None"
    by (simp add: fraction_match_def b strip_trailing_zeros_idem)
  ultimately show ?thesis using ne b by simp
qed

lemma trimTrailingZeros_idem_split:
  assumes "CHR ''.'' \<notin> set pre" and "CHR ''.'' \<notin> set post"
  shows "trimTrailingZeros (trimTrailingZeros (pre @ CHR ''.'' # post))
         = trimTrailingZeros (pre @ CHR ''.'' # post)"
proof (cases "zeros_to_end post \<or> post = []")
  case True
  then have "trimTrailingZeros (pre @ CHR ''.'' # post) = (if pre = [] then ''0'' else pre)"
    by (simp add: trimTrailingZeros_split [OF assms])
  moreover have "CHR ''.'' \<notin> set (if pre = [] then ''0'' else pre)"
    using assms(1) by simp
  ultimately show ?thesis by (simp add: trimTrailingZeros_no_point)
next
  case False
  show ?thesis
  proof (cases "fraction_match post")
    case None
    with False have "trimTrailingZeros (pre @ CHR ''.'' # post) = pre @ CHR ''.'' # post"
      by (simp add: trimTrailingZeros_split [OF assms])
    then show ?thesis by simp
  next
    case (Some body)
    with False have t: "trimTrailingZeros (pre @ CHR ''.'' # post) = pre @ CHR ''.'' # body"
      by (simp add: trimTrailingZeros_split [OF assms])
    from Some have "body = strip_trailing_zeros post"
      by (auto simp: fraction_match_def split: if_splits)
    with assms(2) strip_trailing_zeros_set [of post] have nb: "CHR ''.'' \<notin> set body" by auto
    from fraction_match_body [OF Some]
    have "trimTrailingZeros (pre @ CHR ''.'' # body) = pre @ CHR ''.'' # body"
      by (simp add: trimTrailingZeros_split [OF assms(1) nb])
    with t show ?thesis by simp
  qed
qed

lemma one_point_split:
  assumes "CHR ''.'' \<in> set x" and "count_list x (CHR ''.'') \<le> 1"
  shows "\<exists>pre post. x = pre @ CHR ''.'' # post \<and> CHR ''.'' \<notin> set pre \<and> CHR ''.'' \<notin> set post"
proof -
  from split_list_first [OF assms(1)] obtain pre post
    where x: "x = pre @ CHR ''.'' # post" and pre: "CHR ''.'' \<notin> set pre" by blast
  from assms(2) have "count_list post (CHR ''.'') = 0"
    by (simp add: x)
  then have "CHR ''.'' \<notin> set post" by (simp add: count_list_0_iff)
  with x pre show ?thesis by blast
qed

text \<open>
  C8. \<open>trimTrailingZeros\<close> is idempotent on every decimal string. A decimal string has
  at most one decimal point, and that is all the proof uses: the theorem covers signed
  numerals and numerals with an exponent part. (With two points it fails:
  \<open>1.0.\<close> is trimmed to \<open>1.0\<close>, and that to \<open>1\<close>; see \<open>trim_examples\<close>.)
\<close>

theorem trimTrailingZeros_idempotent:
  assumes "count_list x (CHR ''.'') \<le> 1"
  shows "trimTrailingZeros (trimTrailingZeros x) = trimTrailingZeros x"
proof (cases "CHR ''.'' \<in> set x")
  case False
  then show ?thesis by (simp add: trimTrailingZeros_no_point)
next
  case True
  from one_point_split [OF True assms] obtain pre post
    where "x = pre @ CHR ''.'' # post" "CHR ''.'' \<notin> set pre" "CHR ''.'' \<notin> set post"
    by blast
  then show ?thesis by (simp add: trimTrailingZeros_idem_split)
qed

theorem trimTrailingZeros_idempotent_witness:
  "count_list ''12.3400'' (CHR ''.'') \<le> 1
   \<and> trimTrailingZeros (trimTrailingZeros ''12.3400'') = trimTrailingZeros ''12.3400''"
proof -
  have h: "count_list ''12.3400'' (CHR ''.'') \<le> 1" by simp
  from h trimTrailingZeros_idempotent [OF h] show ?thesis by simp
qed

lemma trim_examples:
  "trimTrailingZeros ''12.3400'' = ''12.34''"
  "trimTrailingZeros ''-7.000'' = ''-7''"
  "trimTrailingZeros ''5.'' = ''5''"
  "trimTrailingZeros ''.0'' = ''0''"
  "trimTrailingZeros ''1.0.'' = ''1.0''"
  "trimTrailingZeros ''1.0'' = ''1''"
  by code_simp+

subsection \<open>C1: the reset after an error\<close>

lemma one_by_zero:
  "clicks [DigitButton ''1'', OperatorButton Divide, DigitButton ''0'', Equal] initial_state
   = \<lparr>current = ''Error'', previous = None, operator = None, overwrite = True\<rparr>"
  by code_simp

lemma reachable_Error_overwrite:
  assumes "reachable s" and "current s = ''Error''"
  shows "overwrite s"
  using reachable_invariant [OF assms(1)] assms(2) typed_not_Error [of "current s"]
  by (auto simp: operand_invariant_def)

text \<open>
  What the handlers do in a state that shows \<open>Error\<close> (so \<open>overwrite\<close> is true).
  \<open>resetIfError\<close> calls the four setters, but the handler goes on with the \<open>current\<close>,
  \<open>previous\<close>, \<open>operator\<close> and \<open>overwrite\<close> of the render that showed \<open>Error\<close>.
  For the buttons that edit the operand the outcome is the one of the initial state;
  \<open>handleOperator\<close> stores the stale \<open>Error\<close> in \<open>previous\<close>, and \<open>handleEqual\<close>
  with a pending operator computes with the stale \<open>Error\<close> and shows \<open>Error\<close> again.
\<close>

lemma error_state_editing:
  assumes "current s = ''Error''" and "overwrite s"
    and "b \<in> set typing_buttons \<or> b = Delete \<or> b = Clear"
  shows "handleButtonClick b s = handleButtonClick b initial_state"
proof -
  from assms(3) consider "b = Decimal" | c where "b = DigitButton [c]" "is_digit c"
    | "b = Delete" | "b = Clear"
    using typing_button_cases by blast
  then show ?thesis
  proof cases
    case 2
    with assms(1,2) is_digit_not_minus [of c] show ?thesis
      by (simp add: handleButtonClick_def handler_defs setter_defs Let_def initial_state_def
          initialCurrent_def MAX_LENGTH_def)
  qed (use assms(1,2) in \<open>simp_all add: handleButtonClick_def handler_defs setter_defs Let_def
      initial_state_def initialCurrent_def MAX_LENGTH_def\<close>)
qed

lemma error_state_operator:
  assumes "current s = ''Error''" and "overwrite s"
  shows "handleOperator nextOp s
         = s\<lparr>current := ''0'', previous := Some ''Error'', operator := Some nextOp,
             overwrite := True\<rparr>"
  using assms
  by (auto simp: handleOperator_def resetIfError_def clearAll_def setter_defs Let_def
      initialCurrent_def split: option.splits)

lemma error_state_equal:
  assumes "current s = ''Error''" and "operator s = Some op" and "previous s = Some prev"
  shows "handleEqual s
         = s\<lparr>current := ''Error'', previous := None, operator := None, overwrite := True\<rparr>"
proof -
  have "compute prev ''Error'' op = ''Error''"
    by (simp add: compute_def Let_def parseFloat_Error isFinite_def)
  with assms show ?thesis
    by (simp add: handleEqual_def resetIfError_def clearAll_def setter_defs Let_def)
qed

text \<open>
  C1 says that an action in the error state acts as on the initial state, and that an
  operator then ends with \<open>previous\<close> equal to \<open>0\<close>. The code does not: after
  1, divide, 0, equal the state shows \<open>Error\<close>; the operator button \<open>+\<close> then leaves
  \<open>previous\<close> equal to \<open>Error\<close>, where the same button on the initial state leaves
  \<open>0\<close>.
\<close>

theorem error_reset_operator:
  "clicks [DigitButton ''1'', OperatorButton Divide, DigitButton ''0'', Equal] initial_state
     = \<lparr>current = ''Error'', previous = None, operator = None, overwrite = True\<rparr>
   \<and> handleButtonClick (OperatorButton Add)
       \<lparr>current = ''Error'', previous = None, operator = None, overwrite = True\<rparr>
     = \<lparr>current = ''0'', previous = Some ''Error'', operator = Some Add, overwrite = True\<rparr>
   \<and> handleButtonClick (OperatorButton Add) initial_state
     = \<lparr>current = ''0'', previous = Some ''0'', operator = Some Add, overwrite = True\<rparr>"
proof -
  have "handleButtonClick (OperatorButton Add)
       \<lparr>current = ''Error'', previous = None, operator = None, overwrite = True\<rparr>
     = \<lparr>current = ''0'', previous = Some ''Error'', operator = Some Add, overwrite = True\<rparr>"
    by (simp add: handleButtonClick_def error_state_operator)
  moreover have "handleButtonClick (OperatorButton Add) initial_state
     = \<lparr>current = ''0'', previous = Some ''0'', operator = Some Add, overwrite = True\<rparr>"
    by (simp add: handleButtonClick_def handleOperator_def resetIfError_def setter_defs Let_def
        initial_state_def initialCurrent_def)
  ultimately show ?thesis
    using one_by_zero by blast
qed

end
